theory Spec2Isabelle
  imports Complex_Main "HOL-Library.Multiset" "HOL-Library.Sublist"
begin

section \<open>CRISPR score analyzer: the ranking, matching and lineage core of app.py\<close>

text \<open>
  The embedding covers \<open>extract_gene_name\<close>, \<open>compute_gene_rankings\<close>,
  \<open>filter_genes_by_list\<close> and \<open>get_lineage_data\<close> of \<^verbatim>\<open>src/app.py\<close>.

  Modelling decisions, all of them visible in the definitions below:
  \<^item> Python strings are \<open>string\<close>. Column names and gene symbols are taken to be
    ASCII: \<open>upper\<close> and \<open>lower\<close> change the 26 letters only, and the whitespace
    class of the regular expression is the ASCII part of Python's \<^verbatim>\<open>\s\<close>.
  \<^item> A score is an exact rational (\<open>rat\<close>), a missing value (NaN) is \<open>None\<close>.
    Rounding of float64 and the infinities are outside the model.
  \<^item> A DataFrame is the list of its columns in insertion order, each a name with a
    typed vector. Tables come from \<^verbatim>\<open>pd.read_csv\<close>, which makes the names unique and
    all vectors of the same length (\<open>wf_table\<close>).
  \<^item> \<^verbatim>\<open>Series.sort_values()\<close> is library code. It is a parameter of the model,
    constrained by what the library promises for the default sort kind: the result is a
    permutation of the input in ascending order of the values.
\<close>

subsection \<open>Characters and strings\<close>

definition upper_char :: "char \<Rightarrow> char" where
  "upper_char c =
     (let n = (of_char c :: nat) in if 97 \<le> n \<and> n \<le> 122 then char_of (n - 32) else c)"

definition lower_char :: "char \<Rightarrow> char" where
  "lower_char c =
     (let n = (of_char c :: nat) in if 65 \<le> n \<and> n \<le> 90 then char_of (n + 32) else c)"

definition upper :: "string \<Rightarrow> string" where
  "upper s = map upper_char s"

definition lower :: "string \<Rightarrow> string" where
  "lower s = map lower_char s"

text \<open>\<^verbatim>\<open>sub in s\<close> on strings: \<open>sub\<close> occurs in \<open>s\<close> as a contiguous block.\<close>

fun starts_with :: "string \<Rightarrow> string \<Rightarrow> bool" where
  "starts_with [] s = True"
| "starts_with (p # ps) [] = False"
| "starts_with (p # ps) (c # cs) = (p = c \<and> starts_with ps cs)"

fun str_in :: "string \<Rightarrow> string \<Rightarrow> bool" where
  "str_in sub [] = (sub = [])"
| "str_in sub (c # cs) = (starts_with sub (c # cs) \<or> str_in sub cs)"

subsection \<open>extract\_gene\_name (app.py, lines 141-148)\<close>

text \<open>
  The pattern is \<^verbatim>\<open>^([A-Za-z0-9_.-]+)\s*\(\<close>, applied with \<^verbatim>\<open>re.match\<close>.
  The class of group 1 contains neither a whitespace character nor the parenthesis, so
  the greedy group can only end at the first character outside the class, and the
  greedy \<^verbatim>\<open>\s*\<close> can only end at the first character that is not whitespace:
  backtracking never finds another match. The function below takes these two maximal
  runs; the section on symbol extraction ties it to the declarative reading of the
  pattern.
\<close>

definition is_token_char :: "char \<Rightarrow> bool" where
  "is_token_char c =
     (let n = (of_char c :: nat) in
        (65 \<le> n \<and> n \<le> 90) \<or> (97 \<le> n \<and> n \<le> 122) \<or> (48 \<le> n \<and> n \<le> 57)
        \<or> c = CHR ''_'' \<or> c = CHR ''.'' \<or> c = CHR ''-'')"

definition is_space :: "char \<Rightarrow> bool" where
  "is_space c =
     (let n = (of_char c :: nat) in (9 \<le> n \<and> n \<le> 13) \<or> (28 \<le> n \<and> n \<le> 32))"


definition starts_with_paren :: "string \<Rightarrow> bool" where
  "starts_with_paren s = (case s of [] \<Rightarrow> False | c # _ \<Rightarrow> c = CHR ''('')"

definition extract_gene_name :: "string \<Rightarrow> string" where
  "extract_gene_name col_name =
     (let tok = takeWhile is_token_char col_name;
          rest = dropWhile is_token_char col_name
      in if tok \<noteq> [] \<and> starts_with_paren (dropWhile is_space rest) then tok
         else col_name)"


subsection \<open>Tables\<close>

text \<open>
  A column is its dtype with its values: a numeric vector (int64 or float64;
  \<open>None\<close> is NaN) or an object vector of strings (\<open>None\<close> is a missing
  entry). A table is the list of named columns in insertion order.
\<close>

datatype column = Numeric "rat option list" | Object "string option list"

type_synonym table = "(string \<times> column) list"

datatype cell = NumCell "rat option" | StrCell "string option"

fun cells :: "column \<Rightarrow> cell list" where
  "cells (Numeric vs) = map NumCell vs"
| "cells (Object vs) = map StrCell vs"

definition columns :: "table \<Rightarrow> string list" where
  "columns df = map fst df"

text \<open>\<^verbatim>\<open>len(df)\<close>: the number of rows.\<close>

definition nrows :: "table \<Rightarrow> nat" where
  "nrows df = (case df of [] \<Rightarrow> 0 | (_, c) # _ \<Rightarrow> length (cells c))"

definition wf_table :: "table \<Rightarrow> bool" where
  "wf_table df =
     (distinct (columns df) \<and> list_all (\<lambda>(_, c). length (cells c) = nrows df) df)"

text \<open>
  What the library can raise on the paths modelled here. \<open>MeanUndefined\<close> stands for a
  column mean that is no number of the model: the mean of an object column (a
  TypeError) or of a column with no value at all (NaN).
\<close>

datatype py_error = KeyError string | MeanUndefined string

text \<open>\<^verbatim>\<open>df[col]\<close>\<close>

definition df_col :: "table \<Rightarrow> string \<Rightarrow> py_error + column" where
  "df_col df col = (case map_of df col of None \<Rightarrow> Inl (KeyError col) | Some c \<Rightarrow> Inr c)"

text \<open>The first error of a list of results, or all the values.\<close>

fun collect :: "('e + 'a) list \<Rightarrow> 'e + 'a list" where
  "collect [] = Inr []"
| "collect (Inl e # rs) = Inl e"
| "collect (Inr v # rs) = (case collect rs of Inl e \<Rightarrow> Inl e | Inr vs \<Rightarrow> Inr (v # vs))"

subsection \<open>Column statistics\<close>

fun dropna :: "'a option list \<Rightarrow> 'a list" where
  "dropna [] = []"
| "dropna (None # vs) = dropna vs"
| "dropna (Some v # vs) = v # dropna vs"

definition mean :: "rat list \<Rightarrow> rat" where
  "mean xs = sum_list xs / of_nat (length xs)"

text \<open>The sample variance (\<^verbatim>\<open>ddof=1\<close>, the default of \<^verbatim>\<open>Series.std\<close>).\<close>

definition var :: "rat list \<Rightarrow> rat" where
  "var xs = (let m = mean xs in sum_list (map (\<lambda>x. (x - m)\<^sup>2) xs) / of_nat (length xs - 1))"


text \<open>
  \<^verbatim>\<open>std_val > t\<close> for a threshold \<open>t \<ge> 0\<close>, decided on the variance so that it
  can be computed; \<open>std_gt_iff\<close> shows it is the comparison of the square root.
\<close>

definition std_gt :: "rat list \<Rightarrow> rat \<Rightarrow> bool" where
  "std_gt xs t = (t\<^sup>2 < var xs)"

subsection \<open>compute\_gene\_rankings (app.py, lines 150-192)\<close>

text \<open>
  The body of the loop over \<^verbatim>\<open>df.columns\<close> has three exits, named here:
  \<open>Skipped\<close> when the dtype test or the test on the number of values fails (the mean
  and the standard deviation are never computed), \<open>Rejected\<close> when they are computed
  and the test on them fails, \<open>Score\<close> when the column is appended to
  \<^verbatim>\<open>gene_cols\<close>. The first two fall through to \<^verbatim>\<open>meta_cols.append(col)\<close>.
\<close>

datatype verdict = Skipped | Rejected | Score

definition is_numeric_dtype :: "column \<Rightarrow> bool" where
  "is_numeric_dtype c = (case c of Numeric _ \<Rightarrow> True | Object _ \<Rightarrow> False)"

definition score_like :: "rat list \<Rightarrow> bool" where
  "score_like sample_vals =
     (let mean_val = mean sample_vals
      in - 5 < mean_val \<and> mean_val < 2 \<and> std_gt sample_vals (1 / 100))"

definition classify_column :: "column \<Rightarrow> verdict" where
  "classify_column c =
     (case c of
        Object _ \<Rightarrow> Skipped
      | Numeric vs \<Rightarrow>
          (let sample_vals = dropna vs
           in if length sample_vals > 10
              then (if score_like sample_vals then Score else Rejected)
              else Skipped))"

text \<open>
  One iteration, for the column name \<open>col\<close>. An exception inside the
  \<^verbatim>\<open>try\<close> is swallowed by the bare \<^verbatim>\<open>except\<close> and the column becomes metadata.
\<close>

definition classify :: "table \<Rightarrow> string \<Rightarrow> verdict" where
  "classify df col = (case df_col df col of Inl _ \<Rightarrow> Skipped | Inr c \<Rightarrow> classify_column c)"

definition gene_cols :: "table \<Rightarrow> string list" where
  "gene_cols df = filter (\<lambda>col. classify df col = Score) (columns df)"

definition meta_cols :: "table \<Rightarrow> string list" where
  "meta_cols df = filter (\<lambda>col. classify df col \<noteq> Score) (columns df)"

text \<open>\<^verbatim>\<open>df[cols].mean()\<close>: the mean of each selected column over its values.\<close>

definition col_mean :: "table \<Rightarrow> string \<Rightarrow> py_error + (string \<times> rat)" where
  "col_mean df col =
     (case df_col df col of
        Inl e \<Rightarrow> Inl e
      | Inr (Object _) \<Rightarrow> Inl (MeanUndefined col)
      | Inr (Numeric vs) \<Rightarrow>
          (if dropna vs = [] then Inl (MeanUndefined col) else Inr (col, mean (dropna vs))))"

definition df_mean :: "table \<Rightarrow> string list \<Rightarrow> py_error + (string \<times> rat) list" where
  "df_mean df cols = collect (map (col_mean df) cols)"

text \<open>
  What the library promises of \<^verbatim>\<open>Series.sort_values()\<close> with its default
  arguments, on a series of (index label, value) entries without NaN.
\<close>

type_synonym series = "(string \<times> rat) list"

definition sort_values_contract :: "(series \<Rightarrow> series) \<Rightarrow> bool" where
  "sort_values_contract sort_values =
     (\<forall>s. mset (sort_values s) = mset s \<and> sorted (map snd (sort_values s)))"

record rank_entry =
  gene_raw :: string
  gene :: string
  mean_score :: rat
  rank :: nat
  percentile :: rat
  gene_upper :: string

text \<open>The message of the failure, as the UTF-8 bytes of the source's string literal.\<close>

definition no_score_msg :: string where
  "no_score_msg =
     [CHR 0xE6, CHR 0x9C, CHR 0xAA, CHR 0xE6, CHR 0x89, CHR 0xBE, CHR 0xE5, CHR 0x88,
      CHR 0xB0, CHR 0xE7, CHR 0xAC, CHR 0xA6, CHR 0xE5, CHR 0x90, CHR 0x88]
     @ ''CRISPR score'' @
     [CHR 0xE7, CHR 0x89, CHR 0xB9, CHR 0xE5, CHR 0xBE, CHR 0x81, CHR 0xE7, CHR 0x9A,
      CHR 0x84, CHR 0xE6, CHR 0x95, CHR 0xB0, CHR 0xE5, CHR 0x80, CHR 0xBC, CHR 0xE5,
      CHR 0x88, CHR 0x97]"

definition make_entry :: "nat \<Rightarrow> nat \<times> string \<times> rat \<Rightarrow> rank_entry" where
  "make_entry n = (\<lambda>(i, col, m).
     \<lparr>gene_raw = col, gene = extract_gene_name col, mean_score = m, rank = i,
      percentile = (of_nat i / of_nat n) * 100,
      gene_upper = upper (extract_gene_name col)\<rparr>)"

text \<open>
  The frame built from the sorted means: one row for each entry, with the rank
  \<^verbatim>\<open>range(1, len(mean_scores) + 1)\<close> and the percentile computed from it.
\<close>

definition build_rankings :: "series \<Rightarrow> rank_entry list" where
  "build_rankings mean_scores =
     (let n = length mean_scores
      in map (make_entry n) (zip [1..<n + 1] mean_scores))"

text \<open>
  The result is the triple the source returns: the ranking or \<^verbatim>\<open>None\<close>, the
  number of rows, the message or \<^verbatim>\<open>None\<close>.
\<close>

definition compute_gene_rankings ::
  "(series \<Rightarrow> series) \<Rightarrow> table \<Rightarrow> py_error + (rank_entry list option \<times> nat \<times> string option)"
where
  "compute_gene_rankings sort_values df =
     (if gene_cols df = [] then Inr (None, 0, Some no_score_msg)
      else case df_mean df (gene_cols df) of
             Inl e \<Rightarrow> Inl e
           | Inr means \<Rightarrow>
               (let mean_scores = sort_values means;
                    rankings = build_rankings mean_scores
                in Inr (Some rankings, nrows df, None)))"

subsection \<open>filter\_genes\_by\_list (app.py, lines 194-203)\<close>

definition filter_genes_by_list :: "rank_entry list \<Rightarrow> string list \<Rightarrow> string list \<times> string list" where
  "filter_genes_by_list gene_rank_df gene_list =
     (let gene_list_upper = map upper gene_list;
          matched_rows = filter (\<lambda>r. gene_upper r \<in> set gene_list_upper) gene_rank_df;
          matched_genes = map gene matched_rows;
          matched_upper = set (map gene_upper matched_rows);
          not_found = filter (\<lambda>g. upper g \<notin> matched_upper) gene_list
      in (matched_genes, not_found))"

subsection \<open>get\_lineage\_data (app.py, lines 205-233)\<close>

record lineage_record =
  lineage :: cell
  crispr_score :: cell
  gene_label :: string

text \<open>
  \<open>gene_label\<close> is the column \<^verbatim>\<open>'gene'\<close> of the long-format frame (the name
  \<open>gene\<close> is the field of \<open>rank_entry\<close>).
\<close>

definition is_lineage_name :: "string \<Rightarrow> bool" where
  "is_lineage_name col = (str_in ''lineage'' (lower col) \<and> \<not> str_in ''sub'' (lower col))"

text \<open>The loop with \<^verbatim>\<open>break\<close>: the first column name that passes the test.\<close>

definition find_lineage_col :: "string list \<Rightarrow> string option" where
  "find_lineage_col cols = find is_lineage_name cols"

text \<open>
  \<^verbatim>\<open>{c.upper(): c for c in df.columns}\<close>: a later column replaces an earlier one
  with the same upper-cased name.
\<close>

definition df_cols_upper :: "table \<Rightarrow> (string \<rightharpoonup> string)" where
  "df_cols_upper df = foldl (\<lambda>m c. m(upper c \<mapsto> c)) Map.empty (columns df)"

definition actual_genes :: "table \<Rightarrow> string list \<Rightarrow> string list" where
  "actual_genes df genes =
     map (\<lambda>g. case df_cols_upper df (upper g) of Some c \<Rightarrow> c | None \<Rightarrow> g)
       (filter (\<lambda>g. df_cols_upper df (upper g) \<noteq> None) genes)"

text \<open>
  \<^verbatim>\<open>temp\<close>: the two selected columns side by side, renamed, with the constant
  column \<^verbatim>\<open>'gene'\<close>.
\<close>

definition lineage_frame :: "table \<Rightarrow> string \<Rightarrow> string \<Rightarrow> py_error + lineage_record list" where
  "lineage_frame df lineage_col gene_col =
     (case df_col df lineage_col of
        Inl e \<Rightarrow> Inl e
      | Inr l \<Rightarrow>
          (case df_col df gene_col of
             Inl e \<Rightarrow> Inl e
           | Inr s \<Rightarrow>
               Inr (map (\<lambda>(a, b). \<lparr>lineage = a, crispr_score = b, gene_label = gene_col\<rparr>)
                      (zip (cells l) (cells s)))))"

definition get_lineage_data :: "table \<Rightarrow> string list \<Rightarrow> py_error + lineage_record list option" where
  "get_lineage_data df genes =
     (case find_lineage_col (columns df) of
        None \<Rightarrow> Inr None
      | Some lineage_col \<Rightarrow>
          (if actual_genes df genes = [] then Inr None
           else case collect (map (lineage_frame df lineage_col)
                          (filter (\<lambda>g. g \<in> set (columns df)) (actual_genes df genes))) of
                  Inl e \<Rightarrow> Inl e
                | Inr result \<Rightarrow> (if result \<noteq> [] then Inr (Some (concat result)) else Inr None)))"

subsection \<open>Auxiliary notions for the statements\<close>

text \<open>The values of a column that \<^verbatim>\<open>dropna\<close> keeps; an object column has none that count.\<close>

definition sample_vals :: "column \<Rightarrow> rat list" where
  "sample_vals c = (case c of Numeric vs \<Rightarrow> dropna vs | Object _ \<Rightarrow> [])"

text \<open>The mean of the non-missing values of the column named \<open>col\<close>.\<close>

definition score_mean :: "table \<Rightarrow> string \<Rightarrow> rat" where
  "score_mean df col = (case df_col df col of Inr c \<Rightarrow> mean (sample_vals c) | Inl _ \<Rightarrow> 0)"

subsection \<open>Example inputs\<close>

definition myc_vals :: "rat option list" where
  "myc_vals = [Some (- 3), Some (- 1), Some (- 3), Some (- 1), Some (- 3), Some (- 1),
               Some (- 3), Some (- 1), Some (- 3), Some (- 1), None, Some (- 2)]"

definition pten_vals :: "rat option list" where
  "pten_vals = [Some 0, Some 1, Some 0, Some 1, Some 0, Some 1,
                Some 0, Some 1, Some 0, Some 1, Some (1 / 2), Some (1 / 2)]"

definition lin_vals :: "string option list" where
  "lin_vals = [Some ''Lung'', Some ''Skin'', Some ''Lung'', Some ''Skin'', Some ''Lung'',
               Some ''Skin'', Some ''Lung'', Some ''Skin'', Some ''Lung'', Some ''Skin'',
               None, Some ''Bone'']"

text \<open>Twelve cell lines, a lineage column, a sub-lineage column and two score columns.\<close>

definition ex_table :: table where
  "ex_table =
     [(''Lineage'', Object lin_vals), (''Lineage_Sub_type'', Object lin_vals),
      (''PTEN'', Numeric pten_vals), (''MYC (4609)'', Numeric myc_vals)]"

text \<open>Ten values and one NaN, with a mean of 1/2 and a variance of 5/18.\<close>

definition ten_vals :: "rat option list" where
  "ten_vals = [Some 0, Some 1, None, Some 0, Some 1, Some 0, Some 1, Some 0, Some 1,
               Some 0, Some 1]"


text \<open>
  A sort within the contract, to run the examples: the insertion sort of the HOL
  library on the values.
\<close>

definition stable_sort_values :: "series \<Rightarrow> series" where
  "stable_sort_values s = sort_key snd s"

text \<open>Tables without a score column.\<close>

definition meta_table_a :: table where
  "meta_table_a = [(''id'', Object [Some ''ACH-1'', Some ''ACH-2''])]"

definition meta_table_b :: table where
  "meta_table_b =
     [(''Lineage'', Object [Some ''Lung'', None]), (''age'', Numeric [Some 61, Some 47]),
      (''KRAS (3845)'', Numeric [Some (- 1), None])]"

text \<open>The ranking of \<open>ex_table\<close> (\<open>ex_table_ranking\<close> below).\<close>

definition ex_ranking :: "rank_entry list" where
  "ex_ranking =
     [\<lparr>gene_raw = ''MYC (4609)'', gene = ''MYC'', mean_score = - 2, rank = 1,
       percentile = 50, gene_upper = ''MYC''\<rparr>,
      \<lparr>gene_raw = ''PTEN'', gene = ''PTEN'', mean_score = 1 / 2, rank = 2,
       percentile = 100, gene_upper = ''PTEN''\<rparr>]"


text \<open>
  Another sort within the contract, which returns entries of equal value in the reverse
  of their input order, and a table with two columns of equal mean.
\<close>

definition reversed_ties_sort_values :: "series \<Rightarrow> series" where
  "reversed_ties_sort_values s = rev (sort_key (\<lambda>p. - snd p) s)"

definition tie_table :: table where
  "tie_table = [(''A1'', Numeric pten_vals), (''B2'', Numeric pten_vals)]"

section \<open>Properties\<close>

subsection \<open>Symbol extraction\<close>











subsection \<open>Column statistics\<close>





subsection \<open>The column classifier\<close>


lemma classify_column_Skipped_iff:
  "classify_column c = Skipped \<longleftrightarrow> \<not> is_numeric_dtype c \<or> length (sample_vals c) \<le> 10"
  by (cases c) (auto simp: classify_column_def is_numeric_dtype_def sample_vals_def Let_def)

lemma df_col_entry:
  assumes "distinct (columns df)" "(col, c) \<in> set df"
  shows "df_col df col = Inr c"
  using assms by (simp add: df_col_def columns_def)

lemma classify_entry:
  assumes "wf_table df" "(col, c) \<in> set df"
  shows "classify df col = classify_column c"
  using assms by (simp add: classify_def wf_table_def df_col_entry)


lemma meta_cols_entry:
  assumes "wf_table df" "(col, c) \<in> set df"
  shows "col \<in> set (meta_cols df) \<longleftrightarrow> classify_column c \<noteq> Score"
proof -
  from assms(2) have "col \<in> set (columns df)"
    by (force simp: columns_def)
  then show ?thesis
    using classify_entry [OF assms] by (simp add: meta_cols_def)
qed

lemma wf_ex_table: "wf_table ex_table"
  by code_simp


text \<open>
  C3, as stated: a numeric column with exactly 10 non-missing values would not be
  skipped. The column \<open>ten_vals\<close> has exactly 10, its mean and standard deviation would
  pass the test, and the classifier skips it.
\<close>

theorem ten_values_skipped:
  "is_numeric_dtype (Numeric ten_vals) \<and> length (sample_vals (Numeric ten_vals)) = 10 \<and>
   score_like (sample_vals (Numeric ten_vals)) \<and>
   classify_column (Numeric ten_vals) = Skipped"
  by code_simp

text \<open>
  C3, amended: the classifier skips a column (metadata, no test on mean and standard
  deviation) if and only if the column is not of numeric dtype or has at most 10
  non-missing values. A skipped column of a table is in \<^verbatim>\<open>meta_cols\<close>; a numeric
  column with 11 non-missing values is not skipped.
\<close>

theorem column_skipped_iff:
  "(classify_column c = Skipped \<longleftrightarrow> \<not> is_numeric_dtype c \<or> length (sample_vals c) \<le> 10) \<and>
   (wf_table df \<and> (col, c) \<in> set df \<and> classify_column c = Skipped \<longrightarrow>
      col \<in> set (meta_cols df)) \<and>
   (is_numeric_dtype c \<and> length (sample_vals c) = 11 \<longrightarrow> classify_column c \<noteq> Skipped)"
proof (intro conjI impI)
  show "classify_column c = Skipped \<longleftrightarrow> \<not> is_numeric_dtype c \<or> length (sample_vals c) \<le> 10"
    by (rule classify_column_Skipped_iff)
next
  assume "wf_table df \<and> (col, c) \<in> set df \<and> classify_column c = Skipped"
  then show "col \<in> set (meta_cols df)"
    using meta_cols_entry [of df col c] by simp
next
  assume "is_numeric_dtype c \<and> length (sample_vals c) = 11"
  then show "classify_column c \<noteq> Skipped"
    by (simp add: classify_column_Skipped_iff)
qed

theorem column_skipped_iff_witness:
  "classify_column (Object lin_vals) = Skipped \<and>
   ''Lineage'' \<in> set (meta_cols ex_table) \<and>
   classify_column (Numeric myc_vals) \<noteq> Skipped"
proof -
  have a: "\<not> is_numeric_dtype (Object lin_vals)"
    by code_simp
  have b: "(''Lineage'', Object lin_vals) \<in> set ex_table"
    by code_simp
  have c: "is_numeric_dtype (Numeric myc_vals) \<and> length (sample_vals (Numeric myc_vals)) = 11"
    by code_simp
  from column_skipped_iff [of "Object lin_vals" ex_table "''Lineage''"]
    column_skipped_iff [of "Numeric myc_vals" ex_table "''MYC (4609)''"]
    a b c wf_ex_table
  show ?thesis by blast
qed



subsection \<open>The gene rank builder\<close>

lemma collect_all_Inr:
  assumes "\<forall>x\<in>set xs. f x = Inr (g x)"
  shows "collect (map f xs) = Inr (map g xs)"
  using assms by (induction xs) auto

lemma classify_Score_col:
  assumes "classify df col = Score"
  shows "\<exists>vs. map_of df col = Some (Numeric vs) \<and> 10 < length (dropna vs)"
proof -
  from assms obtain c where c: "map_of df col = Some c" "classify_column c = Score"
    by (auto simp: classify_def df_col_def split: option.splits)
  then show ?thesis
    by (cases c) (auto simp: classify_column_def Let_def split: if_splits)
qed

lemma col_mean_Score:
  assumes "classify df col = Score"
  shows "col_mean df col = Inr (col, score_mean df col)"
proof -
  from classify_Score_col [OF assms] obtain vs
    where vs: "map_of df col = Some (Numeric vs)" "10 < length (dropna vs)"
    by blast
  then have "dropna vs \<noteq> []" by auto
  with vs show ?thesis
    by (simp add: col_mean_def df_col_def score_mean_def sample_vals_def)
qed

lemma df_mean_gene_cols:
  "df_mean df (gene_cols df) = Inr (map (\<lambda>col. (col, score_mean df col)) (gene_cols df))"
  unfolding df_mean_def
  by (rule collect_all_Inr) (simp add: gene_cols_def col_mean_Score)


lemma make_entry_fields:
  "gene_raw (make_entry n (i, col, m)) = col"
  "mean_score (make_entry n (i, col, m)) = m"
  "rank (make_entry n (i, col, m)) = i"
  "percentile (make_entry n (i, col, m)) = of_nat i / of_nat n * 100"
  "gene (make_entry n (i, col, m)) = extract_gene_name col"
  "gene_upper (make_entry n (i, col, m)) = upper (extract_gene_name col)"
  by (simp_all add: make_entry_def)




lemma entries_upper:
  "r \<in> set (map (make_entry n) (zip ix ms)) \<Longrightarrow>
   gene r = extract_gene_name (gene_raw r) \<and> gene_upper r = upper (gene r)"
  by (auto simp: make_entry_def)












lemma stable_sort_values_contract: "sort_values_contract stable_sort_values"
  by (simp add: sort_values_contract_def stable_sort_values_def)

lemma gene_cols_ex_table: "gene_cols ex_table = [''PTEN'', ''MYC (4609)'']"
  by code_simp



subsection \<open>The failure without score columns\<close>

text \<open>
  C9, as stated: the failure would carry the column count and sample dtypes. Two tables
  with one and with three columns, of different dtypes, give the same failure value:
  no ranking, the count 0 and the fixed message.
\<close>

theorem failure_same_for_different_tables:
  "length (columns meta_table_a) = 1 \<and> length (columns meta_table_b) = 3 \<and>
   compute_gene_rankings stable_sort_values meta_table_a = Inr (None, 0, Some no_score_msg) \<and>
   compute_gene_rankings stable_sort_values meta_table_b = Inr (None, 0, Some no_score_msg)"
  by code_simp

text \<open>
  C9, amended: if no column is classified as a score column, the computation returns
  (it raises no exception) no ranking, the row count 0 and a fixed human-readable
  message, the same for every table; if some column is classified, it returns a
  ranking and no message.
\<close>

theorem no_score_columns_failure:
  "(gene_cols df = [] \<longrightarrow>
      compute_gene_rankings sort_values df = Inr (None, 0, Some no_score_msg)) \<and>
   (gene_cols df \<noteq> [] \<longrightarrow>
      (\<exists>rk. compute_gene_rankings sort_values df = Inr (Some rk, nrows df, None)))"
  by (simp add: compute_gene_rankings_def df_mean_gene_cols Let_def)

theorem no_score_columns_failure_witness:
  "gene_cols meta_table_b = [] \<and>
   compute_gene_rankings stable_sort_values meta_table_b = Inr (None, 0, Some no_score_msg) \<and>
   gene_cols ex_table \<noteq> [] \<and>
   (\<exists>rk. compute_gene_rankings stable_sort_values ex_table = Inr (Some rk, nrows ex_table, None))"
proof -
  have a: "gene_cols meta_table_b = []"
    by code_simp
  have b: "gene_cols ex_table \<noteq> []"
    by (simp add: gene_cols_ex_table)
  from no_score_columns_failure [of meta_table_b stable_sort_values]
    no_score_columns_failure [of ex_table stable_sort_values] a b
  show ?thesis by blast
qed

subsection \<open>The gene name matcher\<close>

lemma matched_genes_eq:
  assumes "\<forall>r\<in>set rk. gene_upper r = upper (gene r)"
  shows "fst (filter_genes_by_list rk gl) =
         filter (\<lambda>s. upper s \<in> set (map upper gl)) (map gene rk)"
proof -
  have "filter (\<lambda>r. gene_upper r \<in> set (map upper gl)) rk =
        filter (\<lambda>r. upper (gene r) \<in> set (map upper gl)) rk"
    using assms by (intro filter_cong) auto
  then show ?thesis
    by (simp add: filter_genes_by_list_def Let_def filter_map comp_def)
qed

lemma not_found_eq:
  assumes "\<forall>r\<in>set rk. gene_upper r = upper (gene r)"
  shows "snd (filter_genes_by_list rk gl) =
         filter (\<lambda>g. upper g \<notin> set (map upper (map gene rk))) gl"
proof -
  have "upper g \<in> set (map gene_upper (filter (\<lambda>r. gene_upper r \<in> set (map upper gl)) rk))
        \<longleftrightarrow> upper g \<in> set (map upper (map gene rk))" if "g \<in> set gl" for g
    using that assms by (auto simp: image_iff) (metis imageI)+
  then show ?thesis
    by (auto simp: filter_genes_by_list_def Let_def intro!: filter_cong)
qed

lemma upper_examples:
  "upper ''myc'' = ''MYC''" "upper ''Foo'' = ''FOO''" "upper ''PTEN'' = ''PTEN''"
  "upper ''MYC'' = ''MYC''"
  by code_simp+

text \<open>
  C7: on a ranking whose \<open>gene_upper\<close> is the upper-cased \<open>gene\<close> (as
  \<open>rankings_gene_upper\<close> shows of every computed ranking), the matched list is the
  list of symbols of the ranking rows, in ranking order and in the ranking's casing,
  that equal a requested symbol up to case; the not-found list is the requested symbols,
  in the user's order, that equal no ranking symbol up to case. Requesting
  myc, Foo, PTEN against a ranking of MYC and PTEN, in either order, yields the two
  symbols in ranking order and Foo as not found.
\<close>

theorem gene_name_matcher:
  assumes "\<forall>r\<in>set rk. gene_upper r = upper (gene r)"
  shows "fst (filter_genes_by_list rk gl) =
           filter (\<lambda>s. \<exists>g\<in>set gl. upper g = upper s) (map gene rk) \<and>
         subseq (fst (filter_genes_by_list rk gl)) (map gene rk) \<and>
         snd (filter_genes_by_list rk gl) =
           filter (\<lambda>g. \<forall>s\<in>set (map gene rk). upper s \<noteq> upper g) gl \<and>
         subseq (snd (filter_genes_by_list rk gl)) gl \<and>
         (map gene rk = [''MYC'', ''PTEN''] \<longrightarrow>
            filter_genes_by_list rk [''myc'', ''Foo'', ''PTEN''] = ([''MYC'', ''PTEN''], [''Foo''])) \<and>
         (map gene rk = [''PTEN'', ''MYC''] \<longrightarrow>
            filter_genes_by_list rk [''myc'', ''Foo'', ''PTEN''] = ([''PTEN'', ''MYC''], [''Foo'']))"
proof -
  have m: "fst (filter_genes_by_list rk gl) =
           filter (\<lambda>s. \<exists>g\<in>set gl. upper g = upper s) (map gene rk)" for gl
    unfolding matched_genes_eq [OF assms]
    by (intro filter_cong) (auto simp: image_iff intro: sym)
  have n: "snd (filter_genes_by_list rk gl) =
           filter (\<lambda>g. \<forall>s\<in>set (map gene rk). upper s \<noteq> upper g) gl" for gl
    unfolding not_found_eq [OF assms]
    by (intro filter_cong) (auto simp: image_iff intro: sym)
  have e: "filter_genes_by_list rk [''myc'', ''Foo'', ''PTEN''] = (gs, [''Foo''])"
    if "map gene rk = gs" "gs = [''MYC'', ''PTEN''] \<or> gs = [''PTEN'', ''MYC'']" for gs
  proof -
    have "fst (filter_genes_by_list rk [''myc'', ''Foo'', ''PTEN'']) = gs"
      using that by (auto simp: m upper_examples)
    moreover have "snd (filter_genes_by_list rk [''myc'', ''Foo'', ''PTEN'']) = [''Foo'']"
      using that by (auto simp: n upper_examples)
    ultimately show ?thesis by (simp add: prod_eq_iff)
  qed
  show ?thesis
    using e by (auto simp: m n)
qed


lemma rankings_gene_upper:
  assumes "compute_gene_rankings sort_values df = Inr (Some rk, n, msg)"
  shows "\<forall>r\<in>set rk. gene r = extract_gene_name (gene_raw r) \<and> gene_upper r = upper (gene r)"
proof -
  from assms obtain ms where "rk = build_rankings ms"
    by (auto simp: compute_gene_rankings_def Let_def split: if_splits sum.splits)
  then show ?thesis
    using entries_upper by (auto simp: build_rankings_def Let_def)
qed

lemma ex_table_ranking:
  "compute_gene_rankings stable_sort_values ex_table = Inr (Some ex_ranking, 12, None)"
  by code_simp

theorem gene_name_matcher_witness:
  "list_all (\<lambda>r. gene_upper r = upper (gene r)) ex_ranking \<and>
   map gene ex_ranking = [''MYC'', ''PTEN''] \<and>
   filter_genes_by_list ex_ranking [''myc'', ''Foo'', ''PTEN''] = ([''MYC'', ''PTEN''], [''Foo'']) \<and>
   subseq (fst (filter_genes_by_list ex_ranking [''PTEN'', ''myc''])) (map gene ex_ranking) \<and>
   subseq (snd (filter_genes_by_list ex_ranking [''PTEN'', ''myc''])) [''PTEN'', ''myc'']"
proof -
  have inv: "\<forall>r\<in>set ex_ranking. gene_upper r = upper (gene r)"
    using rankings_gene_upper [OF ex_table_ranking] by simp
  have g: "map gene ex_ranking = [''MYC'', ''PTEN'']"
    by (simp add: ex_ranking_def)
  from gene_name_matcher [OF inv, of "[''PTEN'', ''myc'']"] inv g
  show ?thesis by (simp add: list_all_iff)
qed

subsection \<open>The lineage aggregator\<close>





lemma df_cols_upper_fold:
  "foldl (\<lambda>m c. m(upper c \<mapsto> c)) m0 cols k = Some v \<Longrightarrow>
   m0 k = Some v \<or> (v \<in> set cols \<and> upper v = k)"
  by (induction cols arbitrary: m0) (fastforce split: if_splits)+

lemma df_cols_upper_fold_dom:
  "foldl (\<lambda>m c. m(upper c \<mapsto> c)) m0 cols k \<noteq> None \<longleftrightarrow>
   m0 k \<noteq> None \<or> (\<exists>c\<in>set cols. upper c = k)"
  by (induction cols arbitrary: m0) auto

lemma df_cols_upper_Some:
  "df_cols_upper df k = Some v \<Longrightarrow> v \<in> set (columns df) \<and> upper v = k"
  using df_cols_upper_fold [of Map.empty "columns df" k v] by (simp add: df_cols_upper_def)

lemma df_cols_upper_dom:
  "df_cols_upper df k \<noteq> None \<longleftrightarrow> (\<exists>c\<in>set (columns df). upper c = k)"
  using df_cols_upper_fold_dom [of Map.empty "columns df" k] by (simp add: df_cols_upper_def)

lemma actual_genes_Nil:
  assumes "\<forall>g\<in>set genes. \<forall>c\<in>set (columns df). upper g \<noteq> upper c"
  shows "actual_genes df genes = []"
proof -
  have "df_cols_upper df (upper g) = None" if "g \<in> set genes" for g
    using that assms df_cols_upper_dom [of df "upper g"] by metis
  then show ?thesis
    by (simp add: actual_genes_def filter_empty_conv)
qed






text \<open>
  C10: when no requested symbol equals a full column name of the table up to case, the
  aggregator returns \<^verbatim>\<open>None\<close>, as it does without a lineage column, whether or
  not a lineage column exists.
\<close>

theorem lineage_no_full_name_match:
  assumes "\<forall>g\<in>set genes. \<forall>c\<in>set (columns df). upper g \<noteq> upper c"
  shows "get_lineage_data df genes = Inr None"
  using actual_genes_Nil [OF assms]
  by (simp add: get_lineage_data_def split: option.splits)

theorem lineage_no_full_name_match_witness:
  "find_lineage_col (columns ex_table) = Some ''Lineage'' \<and>
   list_all (\<lambda>g. list_all (\<lambda>c. upper g \<noteq> upper c) (columns ex_table)) [''MYC'', ''KRAS''] \<and>
   get_lineage_data ex_table [''MYC'', ''KRAS''] = Inr None"
proof -
  have a: "find_lineage_col (columns ex_table) = Some ''Lineage''"
    by code_simp
  have b: "\<forall>g\<in>set [''MYC'', ''KRAS'']. \<forall>c\<in>set (columns ex_table). upper g \<noteq> upper c"
    by code_simp
  from lineage_no_full_name_match [OF b] a b show ?thesis by (simp add: list_all_iff)
qed

text \<open>
  C4, on the example table: the ranking holds the symbol MYC for the column
  MYC (4609), the matcher returns MYC for the request myc, the table has the lineage
  column Lineage, and the aggregator, given the matched symbol MYC, returns
  \<^verbatim>\<open>None\<close>: the symbol is looked up among the full column names only.
\<close>

theorem matched_symbol_not_resolved:
  "compute_gene_rankings stable_sort_values ex_table = Inr (Some ex_ranking, 12, None) \<and>
   filter_genes_by_list ex_ranking [''myc''] = ([''MYC''], []) \<and>
   extract_gene_name ''MYC (4609)'' = ''MYC'' \<and>
   find_lineage_col (columns ex_table) = Some ''Lineage'' \<and>
   get_lineage_data ex_table [''MYC''] = Inr None"
  by code_simp

lemma collect_all_returns:
  assumes "\<forall>x\<in>set xs. \<exists>v. f x = Inr v"
  shows "\<exists>vs. collect (map f xs) = Inr vs"
  using assms by (induction xs) auto

lemma df_col_returns:
  assumes "col \<in> set (columns df)"
  shows "\<exists>c. df_col df col = Inr c"
proof -
  from assms have "map_of df col \<noteq> None"
    by (simp add: columns_def map_of_eq_None_iff)
  then show ?thesis by (auto simp: df_col_def)
qed

lemma get_lineage_data_returns: "\<exists>r. get_lineage_data df genes = Inr r"
proof (cases "find_lineage_col (columns df)")
  case None
  then show ?thesis by (simp add: get_lineage_data_def)
next
  case (Some l)
  then have "l \<in> set (columns df)"
    by (auto simp: find_lineage_col_def find_Some_iff)
  then obtain lc where lc: "df_col df l = Inr lc"
    using df_col_returns by blast
  have "\<exists>v. lineage_frame df l g = Inr v" if "g \<in> set (columns df)" for g
    using df_col_returns [OF that] lc by (auto simp: lineage_frame_def)
  then have "\<exists>vs. collect (map (lineage_frame df l)
      (filter (\<lambda>g. g \<in> set (columns df)) (actual_genes df genes))) = Inr vs"
    by (intro collect_all_returns) simp
  then show ?thesis
    using Some by (auto simp: get_lineage_data_def)
qed

subsection \<open>The records of the lineage aggregator\<close>

lemma collect_map_Inr: "collect (map Inr vs) = Inr vs"
  by (induction vs) auto

lemma collect_InrD: "collect rs = Inr vs \<Longrightarrow> rs = map Inr vs"
  by (induction rs arbitrary: vs rule: collect.induct) (auto split: sum.splits)

lemma collect_Inr_iff: "collect rs = Inr vs \<longleftrightarrow> rs = map Inr vs"
  using collect_map_Inr collect_InrD by metis

lemma df_col_Inr_entry:
  assumes "df_col df col = Inr c"
  shows "(col, c) \<in> set df"
  using assms by (auto simp: df_col_def split: option.splits dest: map_of_SomeD)

lemma wf_table_length:
  assumes "wf_table df" "(col, c) \<in> set df"
  shows "length (cells c) = nrows df"
  using assms by (auto simp: wf_table_def list_all_iff)

lemma lineage_frame_rows:
  assumes "wf_table df" "l \<in> set (columns df)" "g \<in> set (columns df)"
  shows "\<exists>rows. lineage_frame df l g = Inr rows \<and> length rows = nrows df \<and>
           (\<forall>r\<in>set rows. gene_label r = g)"
proof -
  from df_col_returns [OF assms(2)] obtain lc where lc: "df_col df l = Inr lc" by blast
  from df_col_returns [OF assms(3)] obtain gc where gc: "df_col df g = Inr gc" by blast
  have "length (cells lc) = nrows df" "length (cells gc) = nrows df"
    using wf_table_length [OF assms(1)] df_col_Inr_entry lc gc by blast+
  then show ?thesis
    by (auto simp: lineage_frame_def lc gc)
qed

lemma actual_genes_columns:
  "set (actual_genes df genes) \<subseteq> set (columns df)"
  by (auto simp: actual_genes_def dest: df_cols_upper_Some)

lemma actual_genes_resolved:
  "list_all2 (\<lambda>c g. c \<in> set (columns df) \<and> upper c = upper g)
     (actual_genes df genes)
     (filter (\<lambda>g. \<exists>c\<in>set (columns df). upper c = upper g) genes)"
proof -
  define gs where "gs = filter (\<lambda>g. df_cols_upper df (upper g) \<noteq> None) genes"
  have gs: "gs = filter (\<lambda>g. \<exists>c\<in>set (columns df). upper c = upper g) genes"
    unfolding gs_def by (intro filter_cong refl df_cols_upper_dom)
  have "\<forall>g\<in>set gs. df_cols_upper df (upper g) \<noteq> None"
    by (simp add: gs_def)
  then have "list_all2 (\<lambda>c g. c \<in> set (columns df) \<and> upper c = upper g)
     (map (\<lambda>g. case df_cols_upper df (upper g) of Some c \<Rightarrow> c | None \<Rightarrow> g) gs) gs"
    by (induction gs) (auto dest: df_cols_upper_Some)
  moreover have "actual_genes df genes =
      map (\<lambda>g. case df_cols_upper df (upper g) of Some c \<Rightarrow> c | None \<Rightarrow> g) gs"
    by (simp add: actual_genes_def gs_def)
  ultimately show ?thesis
    by (simp only: gs)
qed

text \<open>
  What the aggregator returns when a lineage column exists and some requested name is a
  full column name up to case: for each such name, in the order of the request, one
  frame of \<open>nrows df\<close> records labelled with the column name, concatenated.
\<close>

lemma lineage_records_resolved:
  assumes "wf_table df" "find_lineage_col (columns df) = Some l" "actual_genes df genes \<noteq> []"
  shows "\<exists>frames. get_lineage_data df genes = Inr (Some (concat frames)) \<and>
           length frames = length (actual_genes df genes) \<and>
           (\<forall>i<length frames. length (frames ! i) = nrows df \<and>
              (\<forall>r\<in>set (frames ! i). gene_label r = actual_genes df genes ! i))"
proof -
  let ?gs = "actual_genes df genes"
  have l: "l \<in> set (columns df)"
    using assms(2) by (auto simp: find_lineage_col_def find_Some_iff)
  have keep: "filter (\<lambda>g. g \<in> set (columns df)) ?gs = ?gs"
    using actual_genes_columns [of df genes] by (auto simp: filter_id_conv)
  have "\<forall>g\<in>set ?gs. \<exists>rows. lineage_frame df l g = Inr rows"
    using lineage_frame_rows [OF assms(1) l] actual_genes_columns [of df genes] by blast
  then obtain frames where fr: "collect (map (lineage_frame df l) ?gs) = Inr frames"
    using collect_all_returns [of ?gs "lineage_frame df l"] by blast
  then have eq: "map (lineage_frame df l) ?gs = map Inr frames"
    by (simp add: collect_Inr_iff)
  then have len: "length frames = length ?gs"
    by (metis length_map)
  have each: "length (frames ! i) = nrows df \<and> (\<forall>r\<in>set (frames ! i). gene_label r = ?gs ! i)"
    if "i < length frames" for i
  proof -
    from that len have i: "i < length ?gs" by simp
    then have "?gs ! i \<in> set (columns df)"
      using actual_genes_columns [of df genes] by (metis nth_mem subsetD)
    from lineage_frame_rows [OF assms(1) l this] obtain rows where
      rows: "lineage_frame df l (?gs ! i) = Inr rows" "length rows = nrows df"
        "\<forall>r\<in>set rows. gene_label r = ?gs ! i"
      by blast
    from eq i that have "lineage_frame df l (?gs ! i) = Inr (frames ! i)"
      by (metis nth_map)
    with rows show ?thesis by simp
  qed
  from assms(3) len have "frames \<noteq> []" by auto
  then have "get_lineage_data df genes = Inr (Some (concat frames))"
    using assms(2,3) fr by (simp add: get_lineage_data_def keep)
  with len each show ?thesis by blast
qed

subsection \<open>Columns with equal means\<close>

text \<open>
  The contract of the sort does not fix the order of entries with equal values: the
  insertion sort and a sort that reverses the ties are both within it, and on a table
  with two columns of equal mean they return the two rows in different orders. The
  order the source produces for equal means is the one of the library's default sort.
\<close>

lemma reversed_ties_sort_values_contract: "sort_values_contract reversed_ties_sort_values"
proof -
  have "sorted (map snd (rev (sort_key (\<lambda>p. - snd p) s)))" for s :: series
  proof -
    have "sorted (map (\<lambda>p. - snd p) (sort_key (\<lambda>p. - snd p) s))"
      by (rule sorted_sort_key)
    then have "sorted_wrt (\<lambda>x y. snd y \<le> snd x) (sort_key (\<lambda>p. - snd p) s)"
      by (simp add: sorted_map)
    then show ?thesis
      by (simp add: sorted_map sorted_wrt_rev)
  qed
  then show ?thesis
    by (simp add: sort_values_contract_def reversed_ties_sort_values_def)
qed

lemma tie_order_not_fixed_by_contract:
  "sort_values_contract stable_sort_values \<and> sort_values_contract reversed_ties_sort_values \<and>
   map_sum (\<lambda>e. e) (\<lambda>(rk, _). map_option (map gene_raw) rk)
     (compute_gene_rankings stable_sort_values tie_table) = Inr (Some [''A1'', ''B2'']) \<and>
   map_sum (\<lambda>e. e) (\<lambda>(rk, _). map_option (map gene_raw) rk)
     (compute_gene_rankings reversed_ties_sort_values tie_table) = Inr (Some [''B2'', ''A1''])"
proof -
  have "map_sum (\<lambda>e. e) (\<lambda>(rk, _). map_option (map gene_raw) rk)
     (compute_gene_rankings stable_sort_values tie_table) = Inr (Some [''A1'', ''B2''])"
    by code_simp
  moreover have "map_sum (\<lambda>e. e) (\<lambda>(rk, _). map_option (map gene_raw) rk)
     (compute_gene_rankings reversed_ties_sort_values tie_table) = Inr (Some [''B2'', ''A1''])"
    by code_simp
  ultimately show ?thesis
    using stable_sort_values_contract reversed_ties_sort_values_contract by simp
qed

end
